theory Spec2Isabelle
  imports Main
begin

section \<open>Request signing: botocore/signers.py\<close>

text \<open>
  A shallow embedding of the class \<open>RequestSigner\<close>. The signer's attributes, its
  cache of auth instances and the auth objects themselves are explicit state; every
  exception of the source is a value of the type \<open>error\<close>. The collaborators that
  live in other modules (the auth classes, the event emitter, the request class, the host
  fixer, \<open>botocore.UNSIGNED\<close>) are parameters, collected in the record \<open>env\<close>
  and in the emitter held by the signer.
\<close>

subsection \<open>Python values\<close>

text \<open>
  The values a signature version can take at run time: \<open>None\<close>, a string, or some
  other object, known by its identity.
\<close>

datatype pyval = PyNone | PyStr string | PyObj nat

text \<open>The values that travel in the keyword arguments of an auth constructor.\<close>

record credentials =
  access_key :: string
  secret_key :: string
  token :: "string option"

datatype kwval = KwNone | KwStr string | KwInt int | KwCredentials credentials

type_synonym kwargs = "string \<rightharpoonup> kwval"

fun kw_of_region :: "string option \<Rightarrow> kwval" where
  "kw_of_region None = KwNone"
| "kw_of_region (Some r) = KwStr r"

subsection \<open>Auth classes and instances\<close>

text \<open>
  An entry of \<open>botocore.auth.AUTH_TYPE_MAPS\<close>: a class with its \<open>REQUIRES_REGION\<close>
  attribute. An instance is an object: its identity (\<open>auth_id\<close>, the number of auth
  objects constructed before it), its class and the keyword arguments the constructor
  \<open>cls(**kwargs)\<close> received. Two instances are the same object when their
  identities are equal.
\<close>

record auth_class =
  cls_name :: string
  REQUIRES_REGION :: bool

record auth_instance =
  auth_id :: nat
  auth_cls :: auth_class
  auth_kwargs :: kwargs

subsection \<open>Requests\<close>

text \<open>
  Modelled from the spec: the class \<open>AWSRequest\<close> of \<open>botocore.awsrequest\<close> is
  not part of this file. A request has a method, a URL, headers, query parameters, a body
  and the context side-table; the signer itself reads \<open>url\<close> and writes two keys of
  \<open>context\<close>.
\<close>

datatype condition = CondDict "(string \<times> string) list" | CondList "string list"

record policy =
  expiration :: string
  conditions :: "condition list"

datatype ctx_value = CtxFields "string \<rightharpoonup> string" | CtxPolicy policy

record request =
  req_method :: string
  req_url :: string
  req_headers :: "(string \<times> string) list"
  req_params :: "(string \<times> string) list"
  req_data :: string
  req_context :: "string \<rightharpoonup> ctx_value"

type_synonym request_dict = "(string \<times> string) list"

subsection \<open>Errors\<close>

datatype error =
    UnknownSignatureVersionError pyval
  | NoRegionError
  | OverflowError

subsection \<open>The collaborators\<close>

text \<open>
  What the source imports from other modules. \<open>add_auth\<close> and \<open>fix_s3_host\<close>
  mutate the request they are given; here each returns the request after the call.
  \<open>prepare\<close> builds the prepared request, a new object with the final URL, and
  returns it; the request it is called on stays as it is. \<open>str_of_object\<close> is the
  text that \<open>str.format\<close> renders for an object that is neither \<open>None\<close> nor a
  string.
\<close>

record env =
  AUTH_TYPE_MAPS :: "pyval \<Rightarrow> auth_class option"
  UNSIGNED :: pyval
  ISO8601 :: string
  strftime :: "int \<Rightarrow> string \<Rightarrow> string"
  str_of_object :: "nat \<Rightarrow> string"
  create_request_object :: "request_dict \<Rightarrow> request"
  fix_s3_host :: "request \<Rightarrow> string \<Rightarrow> string option \<Rightarrow> request"
  add_auth :: "auth_instance \<Rightarrow> request \<Rightarrow> request"
  prepare :: "request \<Rightarrow> request"

text \<open>
  Modelled from the spec: the event emitter of \<open>botocore.hooks\<close> is not part of this
  file. It offers "emit until the first non-null response" and "emit to all subscribers,
  ignore responses"; a handler of the second kind leaves its effects on the request only.
  A handler receives the keyword arguments of the event: signing name, region name and
  signature version, and for \<open>before-sign\<close> the request.
\<close>

type_synonym choose_handler = "string \<Rightarrow> string option \<Rightarrow> pyval \<Rightarrow> pyval"
type_synonym sign_handler = "request \<Rightarrow> string \<Rightarrow> string option \<Rightarrow> pyval \<Rightarrow> request"

record event_emitter =
  choose_handlers :: "string \<Rightarrow> choose_handler list"
  sign_handlers :: "string \<Rightarrow> sign_handler list"

fun first_response ::
  "choose_handler list \<Rightarrow> string \<Rightarrow> string option \<Rightarrow> pyval \<Rightarrow> choose_handler option \<times> pyval" where
  "first_response [] sn rn sv = (None, PyNone)"
| "first_response (h # hs) sn rn sv =
     (let response = h sn rn sv
      in if response \<noteq> PyNone then (Some h, response) else first_response hs sn rn sv)"

definition emit_until_response ::
  "event_emitter \<Rightarrow> string \<Rightarrow> string \<Rightarrow> string option \<Rightarrow> pyval \<Rightarrow> choose_handler option \<times> pyval" where
  "emit_until_response em event_name sn rn sv = first_response (choose_handlers em event_name) sn rn sv"

definition emit ::
  "event_emitter \<Rightarrow> string \<Rightarrow> request \<Rightarrow> string \<Rightarrow> string option \<Rightarrow> pyval \<Rightarrow> request" where
  "emit em event_name request sn rn sv =
     foldl (\<lambda>r h. h r sn rn sv) request (sign_handlers em event_name)"

subsection \<open>The signer and its state\<close>

text \<open>
  The calls the signer makes to its collaborators, in the order it makes them. The list
  is kept beside the state so that claims about order can be stated; the source has no
  such list.
\<close>

datatype event =
    EmitUntilResponse string pyval
  | Emit string pyval
  | CacheLookup string
  | Construct nat
  | CreateRequestObject
  | FixS3Host string "string option"
  | AddAuth nat request
  | Prepare

text \<open>
  The attributes set by \<open>__init__\<close>, then \<open>allocated\<close>: the number of auth objects
  constructed so far, from which a new object takes its identity, and \<open>trace\<close>.
\<close>

record state =
  self_service_name :: string
  self_region_name :: "string option"
  self_signing_name :: string
  self_signature_version :: string
  self_credentials :: credentials
  self_event_emitter :: event_emitter
  self_cache :: "string \<rightharpoonup> auth_instance"
  allocated :: nat
  trace :: "event list"

definition RequestSigner ::
  "string \<Rightarrow> string option \<Rightarrow> string \<Rightarrow> string \<Rightarrow> credentials \<Rightarrow> event_emitter \<Rightarrow> state" where
  "RequestSigner service_name region_name signing_name signature_version creds event_emitter =
     \<lparr>self_service_name = service_name,
      self_region_name = region_name,
      self_signing_name = signing_name,
      self_signature_version = signature_version,
      self_credentials = creds,
      self_event_emitter = event_emitter,
      self_cache = Map.empty,
      allocated = 0,
      trace = []\<rparr>"

definition log :: "event \<Rightarrow> state \<Rightarrow> state" where
  "log e st = st\<lparr>trace := trace st @ [e]\<rparr>"

subsection \<open>String helpers\<close>

fun py_str :: "env \<Rightarrow> pyval \<Rightarrow> string" where
  "py_str env PyNone = ''None''"
| "py_str env (PyStr s) = s"
| "py_str env (PyObj n) = str_of_object env n"

fun str_of_region :: "string option \<Rightarrow> string" where
  "str_of_region None = ''None''"
| "str_of_region (Some r) = r"

text \<open>\<open>'{0}.{1}.{2}'.format(signature_version, region_name, signing_name)\<close>\<close>

definition cache_key :: "env \<Rightarrow> pyval \<Rightarrow> string option \<Rightarrow> string \<Rightarrow> string" where
  "cache_key env signature_version region_name signing_name =
     py_str env signature_version @ ''.'' @ str_of_region region_name @ ''.'' @ signing_name"

text \<open>\<open>s.endswith(suffix)\<close>\<close>

definition endswith :: "string \<Rightarrow> string \<Rightarrow> bool" where
  "endswith s suf = (length suf \<le> length s \<and> drop (length s - length suf) s = suf)"

text \<open>
  The derivation of the presign variant in \<open>generate_url\<close> and in
  \<open>build_post_form_args\<close>:
  \<open>if not signature_version.endswith(query_prefix): signature_version += query_prefix\<close>
\<close>

definition with_suffix :: "string \<Rightarrow> string \<Rightarrow> string" where
  "with_suffix signature_version query_prefix =
     (if \<not> endswith signature_version query_prefix
      then signature_version @ query_prefix else signature_version)"

text \<open>\<open>signature_version.split('-', 1)[0]\<close>\<close>

definition signature_type_of :: "string \<Rightarrow> string" where
  "signature_type_of signature_version = takeWhile (\<lambda>c. c \<noteq> CHR ''-'') signature_version"

subsection \<open>get_auth\<close>

definition get_auth ::
  "env \<Rightarrow> string \<Rightarrow> string option \<Rightarrow> pyval \<Rightarrow> kwargs \<Rightarrow> state \<Rightarrow> (error + auth_instance) \<times> state" where
  "get_auth env signing_name region_name signature_version0 kwargs0 st0 =
     (let signature_version =
            (if signature_version0 = PyNone then PyStr (self_signature_version st0)
             else signature_version0);
          key = cache_key env signature_version region_name signing_name;
          st = log (CacheLookup key) st0
      in case self_cache st key of
           Some auth \<Rightarrow> (Inr auth, st)
         | None \<Rightarrow>
            (case AUTH_TYPE_MAPS env signature_version of
               None \<Rightarrow> (Inl (UnknownSignatureVersionError signature_version), st)
             | Some cls \<Rightarrow>
                (let kwargs1 = kwargs0(''credentials'' \<mapsto> KwCredentials (self_credentials st))
                 in if REQUIRES_REGION cls \<and> self_region_name st = None
                    then (Inl NoRegionError, st)
                    else
                     (let kwargs =
                            (if REQUIRES_REGION cls
                             then kwargs1(''region_name'' \<mapsto> kw_of_region region_name,
                                          ''service_name'' \<mapsto> KwStr signing_name)
                             else kwargs1);
                          auth = \<lparr>auth_id = allocated st, auth_cls = cls, auth_kwargs = kwargs\<rparr>
                      in (Inr auth,
                          log (Construct (auth_id auth))
                            (st\<lparr>allocated := Suc (allocated st),
                                self_cache := (self_cache st)(key \<mapsto> auth)\<rparr>))))))"

subsection \<open>sign\<close>

definition sign ::
  "env \<Rightarrow> string \<Rightarrow> request \<Rightarrow> state \<Rightarrow> (error + unit) \<times> request \<times> state" where
  "sign env operation_name request0 st0 =
     (let signature_version0 = PyStr (self_signature_version st0);
          choose_name = ''choose-signer.'' @ self_service_name st0 @ ''.'' @ operation_name;
          (handler, response) =
             emit_until_response (self_event_emitter st0) choose_name
               (self_signing_name st0) (self_region_name st0) signature_version0;
          st1 = log (EmitUntilResponse choose_name signature_version0) st0;
          signature_version = (if response \<noteq> PyNone then response else signature_version0);
          before_name = ''before-sign.'' @ self_service_name st0 @ ''.'' @ operation_name;
          request = emit (self_event_emitter st0) before_name request0
                      (self_signing_name st0) (self_region_name st0) signature_version;
          st2 = log (Emit before_name signature_version) st1
      in if signature_version \<noteq> UNSIGNED env
         then (case get_auth env (self_signing_name st2) (self_region_name st2)
                      signature_version Map.empty st2 of
                 (Inl e, st3) \<Rightarrow> (Inl e, request, st3)
               | (Inr signer, st3) \<Rightarrow>
                   (Inr (), add_auth env signer request,
                    log (AddAuth (auth_id signer) request) st3))
         else (Inr (), request, st2))"

subsection \<open>generate_url\<close>

definition generate_url ::
  "env \<Rightarrow> request_dict \<Rightarrow> int option \<Rightarrow> string option \<Rightarrow> state \<Rightarrow> (error + string) \<times> state" where
  "generate_url env request_dict expires_in region_name0 st0 =
     (let region_name = (if region_name0 = None then self_region_name st0 else region_name0);
          query_prefix = ''-query'';
          signature_version = with_suffix (self_signature_version st0) query_prefix;
          kwargs = (case expires_in of None \<Rightarrow> Map.empty | Some e \<Rightarrow> [''expires'' \<mapsto> KwInt e])
      in case get_auth env (self_signing_name st0) region_name (PyStr signature_version)
                kwargs st0 of
           (Inl e, st1) \<Rightarrow> (Inl e, st1)
         | (Inr auth, st1) \<Rightarrow>
            (let request1 = create_request_object env request_dict;
                 st2 = log CreateRequestObject st1;
                 signature_type = signature_type_of signature_version;
                 request2 = fix_s3_host env request1 signature_type region_name;
                 st3 = log (FixS3Host signature_type region_name) st2;
                 request3 = add_auth env auth request2;
                 st4 = log (AddAuth (auth_id auth) request2) st3;
                 prepared = prepare env request3;
                 st5 = log Prepare st4
             in (Inr (req_url request3), st5)))"

subsection \<open>build_post_form_args\<close>

text \<open>
  Dates are counted in microseconds from 0001-01-01T00:00:00, the least
  \<open>datetime\<close>. \<open>timedelta(seconds=n)\<close> refuses more than 999999999 days, and a sum
  of a date and a duration refuses a result outside the years 1 to 9999.
\<close>

definition timedelta_seconds :: "int \<Rightarrow> error + int" where
  "timedelta_seconds n =
     (if \<bar>n div 86400\<bar> > 999999999 then Inl OverflowError else Inr (n * 1000000))"

definition datetime_max :: int where
  "datetime_max = 3652059 * 86400 * 1000000 - 1"

definition datetime_plus :: "int \<Rightarrow> int \<Rightarrow> error + int" where
  "datetime_plus d delta =
     (if d + delta < 0 \<or> datetime_max < d + delta then Inl OverflowError else Inr (d + delta))"

text \<open>\<open>for condition in conditions: policy['conditions'].append(condition)\<close>\<close>

fun append_conditions :: "condition list \<Rightarrow> condition list \<Rightarrow> condition list" where
  "append_conditions acc [] = acc"
| "append_conditions acc (c # cs) = append_conditions (acc @ [c]) cs"

record post_form_args =
  form_url :: string
  form_fields :: "string \<rightharpoonup> string"

text \<open>
  \<open>datetime_now\<close> is what \<open>datetime.datetime.utcnow()\<close> returns at the call. The
  caller's \<open>fields\<close> mapping is the very object stored under the context key
  \<open>s3-presign-post-fields\<close>, which \<open>add_auth\<close> updates in place: its content at
  the return is read from that key.
\<close>

definition build_post_form_args ::
  "env \<Rightarrow> int \<Rightarrow> request_dict \<Rightarrow> (string \<rightharpoonup> string) option \<Rightarrow> condition list option \<Rightarrow> int
     \<Rightarrow> string option \<Rightarrow> state \<Rightarrow> (error + post_form_args) \<times> state" where
  "build_post_form_args env datetime_now request_dict fields0 conditions0 expires_in
       region_name0 st0 =
     (let fields1 = (case fields0 of None \<Rightarrow> Map.empty | Some f \<Rightarrow> f);
          conditions1 = (case conditions0 of None \<Rightarrow> [] | Some cs \<Rightarrow> cs);
          region_name = (if region_name0 = None then self_region_name st0 else region_name0)
      in case timedelta_seconds expires_in of
           Inl e \<Rightarrow> (Inl e, st0)
         | Inr delta \<Rightarrow>
          (case datetime_plus datetime_now delta of
             Inl e \<Rightarrow> (Inl e, st0)
           | Inr expire_date \<Rightarrow>
            (let policy = \<lparr>expiration = strftime env expire_date (ISO8601 env),
                           conditions = append_conditions [] conditions1\<rparr>;
                 query_prefix = ''-presign-post'';
                 signature_version = with_suffix (self_signature_version st0) query_prefix
             in case get_auth env (self_signing_name st0) region_name (PyStr signature_version)
                       Map.empty st0 of
                  (Inl e, st1) \<Rightarrow> (Inl e, st1)
                | (Inr auth, st1) \<Rightarrow>
                   (let request1 = create_request_object env request_dict;
                        st2 = log CreateRequestObject st1;
                        request2 = request1\<lparr>req_context :=
                           (req_context request1)
                             (''s3-presign-post-fields'' \<mapsto> CtxFields fields1,
                              ''s3-presign-post-policy'' \<mapsto> CtxPolicy policy)\<rparr>;
                        request3 = add_auth env auth request2;
                        st3 = log (AddAuth (auth_id auth) request2) st2;
                        signature_type = signature_type_of signature_version;
                        request4 = fix_s3_host env request3 signature_type region_name;
                        st4 = log (FixS3Host signature_type region_name) st3;
                        fields2 = (case req_context request4 ''s3-presign-post-fields'' of
                                     Some (CtxFields f) \<Rightarrow> f | _ \<Rightarrow> fields1)
                    in (Inr \<lparr>form_url = req_url request4, form_fields = fields2\<rparr>, st4)))))"

section \<open>A signer's lifetime\<close>

text \<open>
  The calls a client can make on one signer. A lifetime is a list of calls run one after
  the other on the state; a call that raises leaves the state as it was at the raise.
\<close>

datatype call =
    CallGetAuth string "string option" pyval kwargs
  | CallSign string request
  | CallGenerateUrl request_dict "int option" "string option"
  | CallBuildPostFormArgs int request_dict "(string \<rightharpoonup> string) option"
      "condition list option" int "string option"

fun run_call :: "env \<Rightarrow> state \<Rightarrow> call \<Rightarrow> state" where
  "run_call env st (CallGetAuth sn rn sv kw) = snd (get_auth env sn rn sv kw st)"
| "run_call env st (CallSign operation_name request) = snd (snd (sign env operation_name request st))"
| "run_call env st (CallGenerateUrl rd e rn) = snd (generate_url env rd e rn st)"
| "run_call env st (CallBuildPostFormArgs now rd f c e rn) =
     snd (build_post_form_args env now rd f c e rn st)"

definition run :: "env \<Rightarrow> call list \<Rightarrow> state \<Rightarrow> state" where
  "run env calls st = foldl (run_call env) st calls"

text \<open>
  The version \<open>get_auth\<close> works with (\<open>None\<close> stands for the signer's own) and the
  key under which it looks its arguments up.
\<close>

definition version_or_default :: "state \<Rightarrow> pyval \<Rightarrow> pyval" where
  "version_or_default st signature_version =
     (if signature_version = PyNone then PyStr (self_signature_version st)
      else signature_version)"

definition effective_key :: "env \<Rightarrow> state \<Rightarrow> string \<Rightarrow> string option \<Rightarrow> pyval \<Rightarrow> string" where
  "effective_key env st signing_name region_name signature_version =
     cache_key env
       (if signature_version = PyNone then PyStr (self_signature_version st)
        else signature_version)
       region_name signing_name"

text \<open>
  The cache is well formed: every cached instance was constructed before now, and no
  instance sits under two keys.
\<close>

definition cache_inv :: "state \<Rightarrow> bool" where
  "cache_inv st =
     ((\<forall>k a. self_cache st k = Some a \<longrightarrow> auth_id a < allocated st)
      \<and> (\<forall>k k' a a'. self_cache st k = Some a \<and> self_cache st k' = Some a'
             \<and> auth_id a = auth_id a' \<longrightarrow> k = k'))"

text \<open>
  \<open>extends st st'\<close>: \<open>st'\<close> is a later state of the signer \<open>st\<close>. The attributes
  are the same, and the cache has kept every entry.
\<close>

definition extends :: "state \<Rightarrow> state \<Rightarrow> bool" where
  "extends st st' =
     (self_service_name st' = self_service_name st
      \<and> self_region_name st' = self_region_name st
      \<and> self_signing_name st' = self_signing_name st
      \<and> self_signature_version st' = self_signature_version st
      \<and> self_credentials st' = self_credentials st
      \<and> self_event_emitter st' = self_event_emitter st
      \<and> allocated st \<le> allocated st'
      \<and> (\<forall>k a. self_cache st k = Some a \<longrightarrow> self_cache st' k = Some a))"

text \<open>The names of the two events of \<open>sign\<close> and the version it settles on.\<close>

definition choose_signer_name :: "state \<Rightarrow> string \<Rightarrow> string" where
  "choose_signer_name st operation_name =
     ''choose-signer.'' @ self_service_name st @ ''.'' @ operation_name"

definition before_sign_name :: "state \<Rightarrow> string \<Rightarrow> string" where
  "before_sign_name st operation_name =
     ''before-sign.'' @ self_service_name st @ ''.'' @ operation_name"

definition choose_signer_response :: "state \<Rightarrow> string \<Rightarrow> pyval" where
  "choose_signer_response st operation_name =
     snd (emit_until_response (self_event_emitter st) (choose_signer_name st operation_name)
            (self_signing_name st) (self_region_name st) (PyStr (self_signature_version st)))"

definition resolved_version :: "state \<Rightarrow> string \<Rightarrow> pyval" where
  "resolved_version st operation_name =
     (if choose_signer_response st operation_name \<noteq> PyNone
      then choose_signer_response st operation_name
      else PyStr (self_signature_version st))"

definition before_sign :: "state \<Rightarrow> string \<Rightarrow> request \<Rightarrow> request" where
  "before_sign st operation_name request =
     emit (self_event_emitter st) (before_sign_name st operation_name) request
       (self_signing_name st) (self_region_name st) (resolved_version st operation_name)"

text \<open>Reading the trace.\<close>

fun is_strategy_event :: "event \<Rightarrow> bool" where
  "is_strategy_event (CacheLookup k) = True"
| "is_strategy_event (Construct a) = True"
| "is_strategy_event (AddAuth a r) = True"
| "is_strategy_event e = False"

fun is_construct :: "event \<Rightarrow> bool" where
  "is_construct (Construct a) = True"
| "is_construct e = False"

fun is_add_auth :: "event \<Rightarrow> bool" where
  "is_add_auth (AddAuth a r) = True"
| "is_add_auth e = False"

fun signed_requests :: "event list \<Rightarrow> request list" where
  "signed_requests [] = []"
| "signed_requests (AddAuth a r # es) = r # signed_requests es"
| "signed_requests (e # es) = signed_requests es"

text \<open>The region and the extra keyword arguments the presign operations pass on.\<close>

definition region_or_default :: "state \<Rightarrow> string option \<Rightarrow> string option" where
  "region_or_default st region_name =
     (if region_name = None then self_region_name st else region_name)"

definition expires_kwargs :: "int option \<Rightarrow> kwargs" where
  "expires_kwargs expires_in =
     (case expires_in of None \<Rightarrow> Map.empty | Some e \<Rightarrow> [''expires'' \<mapsto> KwInt e])"

definition returned_id :: "(error + auth_instance) \<times> state \<Rightarrow> nat option" where
  "returned_id r = (case fst r of Inl e \<Rightarrow> None | Inr a \<Rightarrow> Some (auth_id a))"

section \<open>A concrete setting\<close>

text \<open>
  A registry with three entries, a sentinel object for \<open>botocore.UNSIGNED\<close>, and
  collaborators that leave a visible mark on the request.
\<close>

definition ex_registry :: "pyval \<Rightarrow> auth_class option" where
  "ex_registry v =
     (if v = PyStr ''v4'' then Some \<lparr>cls_name = ''SigV4Auth'', REQUIRES_REGION = True\<rparr>
      else if v = PyStr ''v4-query'' then Some \<lparr>cls_name = ''SigV4QueryAuth'', REQUIRES_REGION = True\<rparr>
      else if v = PyStr ''s3'' then Some \<lparr>cls_name = ''HmacV1Auth'', REQUIRES_REGION = False\<rparr>
      else if v = PyStr ''s3-query'' then Some \<lparr>cls_name = ''HmacV1QueryAuth'', REQUIRES_REGION = False\<rparr>
      else if v = PyStr ''s3-presign-post'' then Some \<lparr>cls_name = ''HmacV1PostAuth'', REQUIRES_REGION = False\<rparr>
      else None)"

definition ex_request :: request where
  "ex_request =
     \<lparr>req_method = ''GET'', req_url = ''https://s3.amazonaws.com/bucket'', req_headers = [],
      req_params = [(''prefix'', ''a'')], req_data = [], req_context = Map.empty\<rparr>"

text \<open>A \<open>prepare\<close> that writes the query parameters into the URL of the object it returns.\<close>

definition ex_prepare :: "request \<Rightarrow> request" where
  "ex_prepare r =
     r\<lparr>req_url := req_url r @ ''?'' @ concat (map (\<lambda>(k, v). k @ ''='' @ v) (req_params r))\<rparr>"

definition ex_env :: env where
  "ex_env =
     \<lparr>AUTH_TYPE_MAPS = ex_registry,
      UNSIGNED = PyObj 0,
      ISO8601 = ''%Y-%m-%dT%H:%M:%SZ'',
      strftime = (\<lambda>d fmt. ''strftime''),
      str_of_object = (\<lambda>n. ''<object>''),
      create_request_object = (\<lambda>rd. ex_request),
      fix_s3_host = (\<lambda>r t rn. r),
      add_auth = (\<lambda>a r. r\<lparr>req_headers := (''Authorization'', cls_name (auth_cls a)) # req_headers r\<rparr>),
      prepare = ex_prepare\<rparr>"

definition ex_credentials :: credentials where
  "ex_credentials = \<lparr>access_key = ''AKID'', secret_key = ''SECRET'', token = None\<rparr>"

text \<open>An emitter whose single \<open>choose-signer\<close> handler answers \<open>response\<close>.\<close>

definition ex_emitter :: "pyval \<Rightarrow> event_emitter" where
  "ex_emitter response =
     \<lparr>choose_handlers = (\<lambda>name. [\<lambda>sn rn sv. response]),
      sign_handlers = (\<lambda>name. [\<lambda>r sn rn sv. r\<lparr>req_headers := (''X-Before-Sign'', sn) # req_headers r\<rparr>])\<rparr>"

definition ex_signer :: "string option \<Rightarrow> string \<Rightarrow> pyval \<Rightarrow> state" where
  "ex_signer region_name signature_version response =
     RequestSigner ''s3'' region_name ''s3'' signature_version ex_credentials (ex_emitter response)"

section \<open>Properties\<close>

subsection \<open>The cache along a lifetime\<close>

lemma extends_refl: "extends st st"
  by (simp add: extends_def)

lemma extends_trans: "extends a b \<Longrightarrow> extends b c \<Longrightarrow> extends a c"
  by (auto simp: extends_def)

lemma extends_log: "extends st (log e st)"
  by (simp add: extends_def log_def)

lemma cache_inv_log: "cache_inv (log e st) = cache_inv st"
  by (simp add: cache_inv_def log_def)


lemma get_auth_shape:
  fixes env sn rn sv kw st
  defines "K \<equiv> effective_key env st sn rn sv"
  shows
  "(\<exists>a. self_cache st K = Some a \<and> get_auth env sn rn sv kw st = (Inr a, log (CacheLookup K) st))
   \<or> (self_cache st K = None \<and> (\<exists>e. get_auth env sn rn sv kw st = (Inl e, log (CacheLookup K) st)))
   \<or> (self_cache st K = None \<and>
       (\<exists>a. auth_id a = allocated st \<and>
            get_auth env sn rn sv kw st =
              (Inr a, log (Construct (allocated st))
                 (st\<lparr>trace := trace st @ [CacheLookup K],
                     allocated := Suc (allocated st),
                     self_cache := (self_cache st)(K \<mapsto> a)\<rparr>))))"
proof (cases "self_cache st K")
  case (Some a)
  then show ?thesis
    by (simp add: K_def get_auth_def Let_def effective_key_def log_def)
next
  case None
  then show ?thesis
    by (simp add: K_def get_auth_def Let_def effective_key_def log_def split: option.splits)
qed

lemma get_auth_extends: "extends st (snd (get_auth env sn rn sv kw st))"
  using get_auth_shape [of st env sn rn sv kw]
  by (auto simp: extends_def log_def)

lemma get_auth_inv:
  assumes "cache_inv st"
  shows "cache_inv (snd (get_auth env sn rn sv kw st))"
  using get_auth_shape [of st env sn rn sv kw]
proof (elim disjE exE conjE)
  fix a assume "get_auth env sn rn sv kw st = (Inr a, log (CacheLookup (effective_key env st sn rn sv)) st)"
  then show ?thesis using assms by (simp add: cache_inv_log)
next
  fix e assume "get_auth env sn rn sv kw st = (Inl e, log (CacheLookup (effective_key env st sn rn sv)) st)"
  then show ?thesis using assms by (simp add: cache_inv_log)
next
  fix a
  assume none: "self_cache st (effective_key env st sn rn sv) = None"
    and id: "auth_id a = allocated st"
    and eq: "get_auth env sn rn sv kw st =
              (Inr a, log (Construct (allocated st))
                 (st\<lparr>trace := trace st @ [CacheLookup (effective_key env st sn rn sv)],
                     allocated := Suc (allocated st),
                     self_cache := (self_cache st)(effective_key env st sn rn sv \<mapsto> a)\<rparr>))"
  from assms have lt: "\<And>k b. self_cache st k = Some b \<Longrightarrow> auth_id b < allocated st"
    and inj: "\<And>k k' b b'. self_cache st k = Some b \<Longrightarrow> self_cache st k' = Some b'
                 \<Longrightarrow> auth_id b = auth_id b' \<Longrightarrow> k = k'"
    unfolding cache_inv_def by blast+
  show ?thesis
    unfolding eq cache_inv_def log_def
    using id inj by (auto simp: less_Suc_eq split: if_splits dest: lt)
qed

lemma get_auth_cached:
  "fst (get_auth env sn rn sv kw st) = Inr a \<Longrightarrow>
   self_cache (snd (get_auth env sn rn sv kw st)) (effective_key env st sn rn sv) = Some a"
  using get_auth_shape [of st env sn rn sv kw]
  by (auto simp: log_def)

lemma get_auth_hit:
  "self_cache st (effective_key env st sn rn sv) = Some a \<Longrightarrow>
   get_auth env sn rn sv kw st = (Inr a, log (CacheLookup (effective_key env st sn rn sv)) st)"
  using get_auth_shape [of st env sn rn sv kw]
  by auto

lemma get_auth_fresh:
  "fst (get_auth env sn rn sv kw st) = Inr a \<Longrightarrow>
   self_cache st (effective_key env st sn rn sv) = None \<Longrightarrow> auth_id a = allocated st"
  using get_auth_shape [of st env sn rn sv kw]
  by auto



lemma extends_log_left: "extends (log e st) st' \<Longrightarrow> extends st st'"
  by (simp add: extends_def log_def)

lemma extends_log_right: "extends st st' \<Longrightarrow> extends st (log e st')"
  by (simp add: extends_def log_def)

lemma get_auth_extends_eq: "get_auth env sn rn sv kw st = (r, st') \<Longrightarrow> extends st st'"
  using get_auth_extends [of st env sn rn sv kw] by simp

lemma get_auth_inv_eq: "get_auth env sn rn sv kw st = (r, st') \<Longrightarrow> cache_inv st \<Longrightarrow> cache_inv st'"
  using get_auth_inv [of st env sn rn sv kw] by simp

lemma sign_extends: "extends st (snd (snd (sign env op r st)))"
  unfolding sign_def Let_def
  by (auto split: prod.splits sum.splits simp: extends_log extends_refl
        dest!: get_auth_extends_eq extends_log_left intro!: extends_log_right)

lemma sign_inv: "cache_inv st \<Longrightarrow> cache_inv (snd (snd (sign env op r st)))"
  unfolding sign_def Let_def
  by (auto split: prod.splits sum.splits simp: cache_inv_log dest: get_auth_inv_eq)

lemma generate_url_extends: "extends st (snd (generate_url env rd e rn st))"
  unfolding generate_url_def Let_def
  by (auto split: prod.splits sum.splits simp: extends_log extends_refl
        dest!: get_auth_extends_eq extends_log_left intro!: extends_log_right)

lemma generate_url_inv: "cache_inv st \<Longrightarrow> cache_inv (snd (generate_url env rd e rn st))"
  unfolding generate_url_def Let_def
  by (auto split: prod.splits sum.splits simp: cache_inv_log dest: get_auth_inv_eq)

lemma build_post_form_args_extends:
  "extends st (snd (build_post_form_args env now rd f c e rn st))"
  unfolding build_post_form_args_def Let_def
  by (auto split: prod.splits sum.splits simp: extends_log extends_refl
        dest!: get_auth_extends_eq extends_log_left intro!: extends_log_right)

lemma build_post_form_args_inv:
  "cache_inv st \<Longrightarrow> cache_inv (snd (build_post_form_args env now rd f c e rn st))"
  unfolding build_post_form_args_def Let_def
  by (auto split: prod.splits sum.splits simp: cache_inv_log dest: get_auth_inv_eq)

lemma run_call_extends: "extends st (run_call env st c)"
  by (cases c)
     (simp_all add: get_auth_extends sign_extends generate_url_extends
        build_post_form_args_extends)

lemma run_call_inv: "cache_inv st \<Longrightarrow> cache_inv (run_call env st c)"
  by (cases c)
     (simp_all add: get_auth_inv sign_inv generate_url_inv build_post_form_args_inv)

lemma run_extends: "extends st (run env calls st)"
  unfolding run_def
proof (induction calls arbitrary: st)
  case Nil
  show ?case by (simp add: extends_refl)
next
  case (Cons c calls)
  show ?case using extends_trans [OF run_call_extends Cons.IH] by simp
qed

lemma run_inv: "cache_inv st \<Longrightarrow> cache_inv (run env calls st)"
  unfolding run_def
  by (induction calls arbitrary: st) (simp_all add: run_call_inv)

lemma RequestSigner_inv: "cache_inv (RequestSigner a b c d e f)"
  by (simp add: cache_inv_def RequestSigner_def)


lemma extends_key: "extends st st' \<Longrightarrow> effective_key env st' sn rn sv = effective_key env st sn rn sv"
  by (simp add: extends_def effective_key_def)

lemma extends_cache: "extends st st' \<Longrightarrow> self_cache st k = Some a \<Longrightarrow> self_cache st' k = Some a"
  by (simp add: extends_def)

text \<open>
  C4: two calls to \<open>get_auth\<close> on the same signer with identical inputs return the same
  instance. If the first call returned \<open>a\<close>, then after any further calls on the
  signer the second call returns \<open>a\<close> itself, identity and content, and leaves the
  signer as it was: only the lookup is added to the trace.
\<close>

theorem get_auth_same_instance:
  assumes "fst (get_auth env sn rn sv kw st) = Inr a"
    and "st' = run env calls (snd (get_auth env sn rn sv kw st))"
  shows "get_auth env sn rn sv kw st' = (Inr a, log (CacheLookup (effective_key env st sn rn sv)) st')"
proof -
  let ?st1 = "snd (get_auth env sn rn sv kw st)"
  have ext: "extends st st'"
    using extends_trans [OF get_auth_extends run_extends] assms(2) by simp
  have "self_cache ?st1 (effective_key env st sn rn sv) = Some a"
    using assms(1) by (rule get_auth_cached)
  then have "self_cache st' (effective_key env st sn rn sv) = Some a"
    using extends_cache [OF run_extends] assms(2) by simp
  then have "self_cache st' (effective_key env st' sn rn sv) = Some a"
    by (simp add: extends_key [OF ext])
  from get_auth_hit [OF this] show ?thesis
    by (simp add: extends_key [OF ext])
qed

theorem get_auth_same_instance_witness:
  "fst (get_auth ex_env ''s3'' (Some ''us-east-1'') (PyStr ''v4'') Map.empty
          (ex_signer (Some ''us-east-1'') ''v4'' PyNone))
     = Inr \<lparr>auth_id = 0, auth_cls = \<lparr>cls_name = ''SigV4Auth'', REQUIRES_REGION = True\<rparr>,
            auth_kwargs = [''credentials'' \<mapsto> KwCredentials ex_credentials,
                           ''region_name'' \<mapsto> KwStr ''us-east-1'',
                           ''service_name'' \<mapsto> KwStr ''s3'']\<rparr>
   \<and> returned_id (get_auth ex_env ''s3'' (Some ''us-east-1'') (PyStr ''v4'') Map.empty
         (run ex_env [CallGetAuth ''s3'' (Some ''eu-west-1'') (PyStr ''v4'') Map.empty]
           (snd (get_auth ex_env ''s3'' (Some ''us-east-1'') (PyStr ''v4'') Map.empty
                  (ex_signer (Some ''us-east-1'') ''v4'' PyNone))))) = Some 0"
proof -
  have h: "fst (get_auth ex_env ''s3'' (Some ''us-east-1'') (PyStr ''v4'') Map.empty
          (ex_signer (Some ''us-east-1'') ''v4'' PyNone))
     = Inr \<lparr>auth_id = 0, auth_cls = \<lparr>cls_name = ''SigV4Auth'', REQUIRES_REGION = True\<rparr>,
            auth_kwargs = [''credentials'' \<mapsto> KwCredentials ex_credentials,
                           ''region_name'' \<mapsto> KwStr ''us-east-1'',
                           ''service_name'' \<mapsto> KwStr ''s3'']\<rparr>"
    by (simp add: get_auth_def ex_signer_def RequestSigner_def ex_env_def ex_registry_def
          cache_key_def log_def Let_def)
  show ?thesis
    using h get_auth_same_instance [OF h refl, of "[CallGetAuth ''s3'' (Some ''eu-west-1'') (PyStr ''v4'') Map.empty]"]
    by (simp add: returned_id_def)
qed

text \<open>
  C1, amended: within the lifetime of one signer, two successful calls to \<open>get_auth\<close>
  whose key strings \<open>version.region.signing_name\<close> differ return distinct instances.
\<close>

theorem get_auth_distinct_instances:
  assumes "st = run env before (RequestSigner svc r s v creds em)"
    and "fst (get_auth env sn1 rn1 sv1 kw1 st) = Inr a1"
    and "st' = run env between (snd (get_auth env sn1 rn1 sv1 kw1 st))"
    and "fst (get_auth env sn2 rn2 sv2 kw2 st') = Inr a2"
    and "effective_key env st sn1 rn1 sv1 \<noteq> effective_key env st' sn2 rn2 sv2"
  shows "auth_id a1 \<noteq> auth_id a2"
proof -
  let ?st1 = "snd (get_auth env sn1 rn1 sv1 kw1 st)"
  let ?k1 = "effective_key env st sn1 rn1 sv1"
  let ?k2 = "effective_key env st' sn2 rn2 sv2"
  have inv: "cache_inv st'"
    using assms(1,3) by (simp add: run_inv get_auth_inv RequestSigner_inv)
  have "self_cache ?st1 ?k1 = Some a1"
    using assms(2) by (rule get_auth_cached)
  then have c1: "self_cache st' ?k1 = Some a1"
    using extends_cache [OF run_extends] assms(3) by simp
  show ?thesis
  proof (cases "self_cache st' ?k2")
    case None
    from get_auth_fresh [OF assms(4) None] have "auth_id a2 = allocated st'" .
    moreover have "auth_id a1 < allocated st'"
      using inv c1 unfolding cache_inv_def by blast
    ultimately show ?thesis by simp
  next
    case (Some b)
    from get_auth_hit [OF Some, of kw2] assms(4) have "b = a2" by simp
    with Some c1 inv assms(5) show ?thesis
      unfolding cache_inv_def by blast
  qed
qed

theorem get_auth_distinct_instances_witness:
  "returned_id (get_auth ex_env ''s3'' (Some ''us-east-1'') (PyStr ''v4'') Map.empty
      (ex_signer (Some ''us-east-1'') ''v4'' PyNone)) = Some 0
   \<and> returned_id (get_auth ex_env ''s3'' (Some ''eu-west-1'') (PyStr ''v4'') Map.empty
        (snd (get_auth ex_env ''s3'' (Some ''us-east-1'') (PyStr ''v4'') Map.empty
          (ex_signer (Some ''us-east-1'') ''v4'' PyNone)))) = Some 1
   \<and> (0::nat) \<noteq> 1"
proof -
  let ?st = "ex_signer (Some ''us-east-1'') ''v4'' PyNone"
  let ?a1 = "\<lparr>auth_id = 0, auth_cls = \<lparr>cls_name = ''SigV4Auth'', REQUIRES_REGION = True\<rparr>,
            auth_kwargs = [''credentials'' \<mapsto> KwCredentials ex_credentials,
                           ''region_name'' \<mapsto> KwStr ''us-east-1'',
                           ''service_name'' \<mapsto> KwStr ''s3'']\<rparr>"
  let ?a2 = "\<lparr>auth_id = 1, auth_cls = \<lparr>cls_name = ''SigV4Auth'', REQUIRES_REGION = True\<rparr>,
            auth_kwargs = [''credentials'' \<mapsto> KwCredentials ex_credentials,
                           ''region_name'' \<mapsto> KwStr ''eu-west-1'',
                           ''service_name'' \<mapsto> KwStr ''s3'']\<rparr>"
  have h0: "?st = run ex_env [] (RequestSigner ''s3'' (Some ''us-east-1'') ''s3'' ''v4'' ex_credentials (ex_emitter PyNone))"
    by (simp add: run_def ex_signer_def)
  have h1: "fst (get_auth ex_env ''s3'' (Some ''us-east-1'') (PyStr ''v4'') Map.empty ?st) = Inr ?a1"
    by (simp add: get_auth_def ex_signer_def RequestSigner_def ex_env_def ex_registry_def
          cache_key_def log_def Let_def)
  have h2: "snd (get_auth ex_env ''s3'' (Some ''us-east-1'') (PyStr ''v4'') Map.empty ?st)
             = run ex_env [] (snd (get_auth ex_env ''s3'' (Some ''us-east-1'') (PyStr ''v4'') Map.empty ?st))"
    by (simp add: run_def)
  have h3: "fst (get_auth ex_env ''s3'' (Some ''eu-west-1'') (PyStr ''v4'') Map.empty
        (snd (get_auth ex_env ''s3'' (Some ''us-east-1'') (PyStr ''v4'') Map.empty ?st))) = Inr ?a2"
    by (simp add: get_auth_def ex_signer_def RequestSigner_def ex_env_def ex_registry_def
          cache_key_def log_def Let_def)
  have h4: "effective_key ex_env ?st ''s3'' (Some ''us-east-1'') (PyStr ''v4'')
      \<noteq> effective_key ex_env (snd (get_auth ex_env ''s3'' (Some ''us-east-1'') (PyStr ''v4'') Map.empty ?st))
           ''s3'' (Some ''eu-west-1'') (PyStr ''v4'')"
    by (simp add: effective_key_def cache_key_def)
  show ?thesis
    using get_auth_distinct_instances [OF h0 h1 h2 h3 h4] h1 h3
    by (simp add: returned_id_def)
qed

text \<open>
  The claim as first stated, for all distinct triples, fails: the key is the three
  components joined by dots, so two distinct triples can give one key, and the second
  call then returns the instance cached by the first.
\<close>

theorem get_auth_key_collision:
  "(PyStr ''s3'', Some ''us.east'', ''s3'') \<noteq> (PyStr ''s3'', Some ''us'', ''east.s3'')
   \<and> returned_id (get_auth ex_env ''s3'' (Some ''us.east'') (PyStr ''s3'') Map.empty
         (ex_signer None ''s3'' PyNone)) = Some 0
   \<and> returned_id (get_auth ex_env ''east.s3'' (Some ''us'') (PyStr ''s3'') Map.empty
         (snd (get_auth ex_env ''s3'' (Some ''us.east'') (PyStr ''s3'') Map.empty
                (ex_signer None ''s3'' PyNone)))) = Some 0"
  by (simp add: returned_id_def get_auth_def ex_signer_def RequestSigner_def ex_env_def
        ex_registry_def cache_key_def log_def Let_def)

text \<open>
  Where neither the version text nor the region text holds a dot, the key determines the
  three texts, so distinct triples of texts have distinct keys.
\<close>

lemma split_at_first:
  "c \<notin> set a \<Longrightarrow> c \<notin> set b \<Longrightarrow> a @ c # x = b @ c # y \<Longrightarrow> a = b \<and> x = y"
proof (induction a arbitrary: b)
  case Nil
  then show ?case by (cases b) auto
next
  case (Cons h a)
  then show ?case by (cases b) auto
qed

lemma cache_key_injective:
  assumes "CHR ''.'' \<notin> set (py_str env v1)" and "CHR ''.'' \<notin> set (py_str env v2)"
    and "CHR ''.'' \<notin> set (str_of_region r1)" and "CHR ''.'' \<notin> set (str_of_region r2)"
    and "cache_key env v1 r1 s1 = cache_key env v2 r2 s2"
  shows "py_str env v1 = py_str env v2 \<and> str_of_region r1 = str_of_region r2 \<and> s1 = s2"
proof -
  from assms(5) have eq:
    "py_str env v1 @ CHR ''.'' # (str_of_region r1 @ CHR ''.'' # s1)
       = py_str env v2 @ CHR ''.'' # (str_of_region r2 @ CHR ''.'' # s2)"
    by (simp add: cache_key_def)
  from split_at_first [OF assms(1,2) eq]
  have v: "py_str env v1 = py_str env v2"
    and rest: "str_of_region r1 @ CHR ''.'' # s1 = str_of_region r2 @ CHR ''.'' # s2"
    by blast+
  from split_at_first [OF assms(3,4) rest] v
  show ?thesis by blast
qed

subsection \<open>The region requirement\<close>

lemma effective_key_eq:
  "effective_key env st sn rn sv = cache_key env (version_or_default st sv) rn sn"
  by (simp add: effective_key_def version_or_default_def)

lemma get_auth_miss:
  assumes "self_cache st (effective_key env st sn rn sv) = None"
  shows "get_auth env sn rn sv kw st =
     (case AUTH_TYPE_MAPS env (version_or_default st sv) of
        None \<Rightarrow> (Inl (UnknownSignatureVersionError (version_or_default st sv)),
                 log (CacheLookup (effective_key env st sn rn sv)) st)
      | Some cls \<Rightarrow>
         if REQUIRES_REGION cls \<and> self_region_name st = None
         then (Inl NoRegionError, log (CacheLookup (effective_key env st sn rn sv)) st)
         else (let auth = \<lparr>auth_id = allocated st, auth_cls = cls,
                           auth_kwargs =
                             (if REQUIRES_REGION cls
                              then kw(''credentials'' \<mapsto> KwCredentials (self_credentials st),
                                      ''region_name'' \<mapsto> kw_of_region rn,
                                      ''service_name'' \<mapsto> KwStr sn)
                              else kw(''credentials'' \<mapsto> KwCredentials (self_credentials st)))\<rparr>
               in (Inr auth,
                   log (Construct (allocated st))
                     ((log (CacheLookup (effective_key env st sn rn sv)) st)
                        \<lparr>allocated := Suc (allocated st),
                         self_cache := (self_cache st)(effective_key env st sn rn sv \<mapsto> auth)\<rparr>))))"
  using assms
  by (simp add: get_auth_def Let_def effective_key_def version_or_default_def log_def
        split: option.splits)

text \<open>
  C2, amended: for a call to \<open>get_auth\<close> that misses the cache and selects a class with
  a region requirement, \<open>NoRegionError\<close> is raised if and only if the signer's own
  region is absent, whatever the region parameter; it is raised before the construction:
  the state is as before the call, with the lookup added to the trace.
\<close>

theorem get_auth_missing_region:
  assumes "self_cache st (effective_key env st sn rn sv) = None"
    and "AUTH_TYPE_MAPS env (version_or_default st sv) = Some cls"
    and "REQUIRES_REGION cls"
  shows "(fst (get_auth env sn rn sv kw st) = Inl NoRegionError) = (self_region_name st = None)
         \<and> (self_region_name st = None \<longrightarrow>
              snd (get_auth env sn rn sv kw st)
                = log (CacheLookup (effective_key env st sn rn sv)) st)"
  using assms by (simp add: get_auth_miss Let_def)

theorem get_auth_missing_region_witness:
  "fst (get_auth ex_env ''s3'' None (PyStr ''v4'') Map.empty (ex_signer None ''v4'' PyNone))
     = Inl NoRegionError
   \<and> self_cache (snd (get_auth ex_env ''s3'' None (PyStr ''v4'') Map.empty (ex_signer None ''v4'' PyNone)))
        ''v4.None.s3'' = None
   \<and> allocated (snd (get_auth ex_env ''s3'' None (PyStr ''v4'') Map.empty (ex_signer None ''v4'' PyNone))) = 0"
proof -
  let ?st = "ex_signer None ''v4'' PyNone"
  have h1: "self_cache ?st (effective_key ex_env ?st ''s3'' None (PyStr ''v4'')) = None"
    by (simp add: ex_signer_def RequestSigner_def)
  have h2: "AUTH_TYPE_MAPS ex_env (version_or_default ?st (PyStr ''v4''))
              = Some \<lparr>cls_name = ''SigV4Auth'', REQUIRES_REGION = True\<rparr>"
    by (simp add: ex_env_def ex_registry_def version_or_default_def)
  have h3: "REQUIRES_REGION \<lparr>cls_name = ''SigV4Auth'', REQUIRES_REGION = True\<rparr>"
    by simp
  have h4: "self_region_name ?st = None"
    by (simp add: ex_signer_def RequestSigner_def)
  show ?thesis
    using get_auth_missing_region [OF h1 h2 h3, of Map.empty] h4
    by (simp add: log_def ex_signer_def RequestSigner_def)
qed

text \<open>
  The claim as first stated fails where the signer has no region and the caller supplies
  one: the error is raised all the same.
\<close>

theorem get_auth_region_parameter_ignored:
  "fst (get_auth ex_env ''s3'' (Some ''us-west-2'') (PyStr ''v4'') Map.empty
          (ex_signer None ''v4'' PyNone)) = Inl NoRegionError"
  by (simp add: get_auth_def ex_signer_def RequestSigner_def ex_env_def ex_registry_def
        cache_key_def log_def Let_def)

subsection \<open>sign\<close>

lemma sign_unfold:
  "sign env op r st =
     (if resolved_version st op \<noteq> UNSIGNED env
      then (case get_auth env (self_signing_name st) (self_region_name st) (resolved_version st op)
             Map.empty
             (log (Emit (before_sign_name st op) (resolved_version st op))
               (log (EmitUntilResponse (choose_signer_name st op)
                      (PyStr (self_signature_version st))) st)) of
        (Inl e, st3) \<Rightarrow> (Inl e, before_sign st op r, st3)
      | (Inr a, st3) \<Rightarrow>
          (Inr (), add_auth env a (before_sign st op r),
           log (AddAuth (auth_id a) (before_sign st op r)) st3))
      else (Inr (), before_sign st op r,
      log (Emit (before_sign_name st op) (resolved_version st op))
        (log (EmitUntilResponse (choose_signer_name st op) (PyStr (self_signature_version st))) st)))"
proof -
  have a: "self_signing_name (log e1 (log e2 st)) = self_signing_name st" for e1 e2
    by (simp add: log_def)
  have b: "self_region_name (log e1 (log e2 st)) = self_region_name st" for e1 e2
    by (simp add: log_def)
  show ?thesis
    unfolding sign_def Let_def split_beta resolved_version_def choose_signer_response_def
        choose_signer_name_def before_sign_name_def before_sign_def a b
    by (cases "snd (emit_until_response (self_event_emitter st)
            (''choose-signer.'' @ self_service_name st @ ''.'' @ op)
            (self_signing_name st) (self_region_name st)
            (PyStr (self_signature_version st))) = PyNone") simp_all
qed

lemma sign_unsigned:
  assumes "resolved_version st op = UNSIGNED env"
  shows "sign env op r st =
     (Inr (), before_sign st op r,
      log (Emit (before_sign_name st op) (resolved_version st op))
        (log (EmitUntilResponse (choose_signer_name st op) (PyStr (self_signature_version st))) st))"
  using assms by (simp add: sign_unfold)

lemma sign_signed:
  assumes "resolved_version st op \<noteq> UNSIGNED env"
  shows "sign env op r st =
     (case get_auth env (self_signing_name st) (self_region_name st) (resolved_version st op)
             Map.empty
             (log (Emit (before_sign_name st op) (resolved_version st op))
               (log (EmitUntilResponse (choose_signer_name st op)
                      (PyStr (self_signature_version st))) st)) of
        (Inl e, st3) \<Rightarrow> (Inl e, before_sign st op r, st3)
      | (Inr a, st3) \<Rightarrow>
          (Inr (), add_auth env a (before_sign st op r),
           log (AddAuth (auth_id a) (before_sign st op r)) st3))"
  using assms by (simp add: sign_unfold)

text \<open>
  C3: a \<open>choose-signer\<close> handler answers the empty string, and
  \<open>botocore.UNSIGNED\<close> is a sentinel object. The empty string is then a signature
  version like any other: \<open>sign\<close> goes on to \<open>get_auth\<close>, which finds no class
  for it and raises.
\<close>

theorem sign_blank_response:
  "resolved_version (ex_signer (Some ''us-east-1'') ''v4'' (PyStr '''')) ''ListBuckets'' = PyStr ''''
   \<and> fst (sign ex_env ''ListBuckets'' ex_request (ex_signer (Some ''us-east-1'') ''v4'' (PyStr '''')))
       = Inl (UnknownSignatureVersionError (PyStr ''''))"
  by (simp add: sign_unfold resolved_version_def choose_signer_response_def
        emit_until_response_def ex_signer_def RequestSigner_def ex_emitter_def ex_env_def
        get_auth_def Let_def cache_key_def log_def ex_registry_def)

text \<open>
  C6, amended: when the version \<open>sign\<close> settles on is not the sentinel, has no
  registered class and its key is not in the cache, \<open>sign\<close> raises
  \<open>UnknownSignatureVersionError\<close>; the request is the one the \<open>before-sign\<close>
  handlers left, and the signer has only three more events in its trace: the two emits
  and the lookup. No instance is constructed and no \<open>add_auth\<close> is called.
\<close>

theorem sign_unknown_version:
  assumes "resolved_version st op \<noteq> UNSIGNED env"
    and "AUTH_TYPE_MAPS env (resolved_version st op) = None"
    and "self_cache st (cache_key env (resolved_version st op) (self_region_name st)
            (self_signing_name st)) = None"
  shows "sign env op r st =
     (Inl (UnknownSignatureVersionError (resolved_version st op)),
      before_sign st op r,
      st\<lparr>trace := trace st @
           [EmitUntilResponse (choose_signer_name st op) (PyStr (self_signature_version st)),
            Emit (before_sign_name st op) (resolved_version st op),
            CacheLookup (cache_key env (resolved_version st op) (self_region_name st)
              (self_signing_name st))]\<rparr>)"
proof -
  have ne: "resolved_version st op \<noteq> PyNone"
    by (simp add: resolved_version_def)
  let ?st2 = "log (Emit (before_sign_name st op) (resolved_version st op))
               (log (EmitUntilResponse (choose_signer_name st op)
                      (PyStr (self_signature_version st))) st)"
  have v: "version_or_default ?st2 (resolved_version st op) = resolved_version st op"
    using ne by (simp add: version_or_default_def)
  have k: "effective_key env ?st2 (self_signing_name st) (self_region_name st) (resolved_version st op)
      = cache_key env (resolved_version st op) (self_region_name st) (self_signing_name st)"
    using ne by (simp add: effective_key_def)
  have c: "self_cache ?st2 = self_cache st"
    by (simp add: log_def)
  have "get_auth env (self_signing_name st) (self_region_name st) (resolved_version st op)
          Map.empty ?st2 =
        (Inl (UnknownSignatureVersionError (resolved_version st op)),
         log (CacheLookup (cache_key env (resolved_version st op) (self_region_name st)
              (self_signing_name st))) ?st2)"
    using assms(2,3) by (simp add: get_auth_miss k c v)
  then show ?thesis
    using assms(1) by (simp add: sign_signed log_def)
qed

theorem sign_unknown_version_witness:
  "sign ex_env ''ListBuckets'' ex_request (ex_signer (Some ''us-east-1'') ''v4'' (PyStr ''v9'')) =
     (Inl (UnknownSignatureVersionError (PyStr ''v9'')),
      ex_request\<lparr>req_headers := [(''X-Before-Sign'', ''s3'')]\<rparr>,
      (ex_signer (Some ''us-east-1'') ''v4'' (PyStr ''v9''))
        \<lparr>trace := [EmitUntilResponse ''choose-signer.s3.ListBuckets'' (PyStr ''v4''),
                    Emit ''before-sign.s3.ListBuckets'' (PyStr ''v9''),
                    CacheLookup ''v9.us-east-1.s3'']\<rparr>)"
proof -
  let ?st = "ex_signer (Some ''us-east-1'') ''v4'' (PyStr ''v9'')"
  have rv: "resolved_version ?st ''ListBuckets'' = PyStr ''v9''"
    by (simp add: resolved_version_def choose_signer_response_def emit_until_response_def
          ex_signer_def RequestSigner_def ex_emitter_def Let_def)
  have h1: "resolved_version ?st ''ListBuckets'' \<noteq> UNSIGNED ex_env"
    by (simp add: rv ex_env_def)
  have h2: "AUTH_TYPE_MAPS ex_env (resolved_version ?st ''ListBuckets'') = None"
    by (simp add: rv ex_env_def ex_registry_def)
  have h3: "self_cache ?st (cache_key ex_env (resolved_version ?st ''ListBuckets'')
              (self_region_name ?st) (self_signing_name ?st)) = None"
    by (simp add: ex_signer_def RequestSigner_def)
  have bs: "before_sign ?st ''ListBuckets'' ex_request
              = ex_request\<lparr>req_headers := [(''X-Before-Sign'', ''s3'')]\<rparr>"
    by (simp add: before_sign_def emit_def ex_signer_def RequestSigner_def ex_emitter_def
          ex_request_def)
  have nm: "choose_signer_name ?st ''ListBuckets'' = ''choose-signer.s3.ListBuckets''"
    "before_sign_name ?st ''ListBuckets'' = ''before-sign.s3.ListBuckets''"
    "self_signature_version ?st = ''v4''" "trace ?st = []"
    "cache_key ex_env (PyStr ''v9'') (self_region_name ?st) (self_signing_name ?st) = ''v9.us-east-1.s3''"
    by (simp_all add: choose_signer_name_def before_sign_name_def ex_signer_def
          RequestSigner_def cache_key_def)
  show ?thesis
    using sign_unknown_version [OF h1 h2 h3, of ex_request]
    by (simp add: rv bs nm)
qed

text \<open>
  The claim as first stated, for every call whose version has no registered class, fails
  when an earlier call has cached an instance under the same key string: the lookup
  succeeds before the registry is consulted, and the request is signed.
\<close>

theorem sign_unknown_version_cached:
  "AUTH_TYPE_MAPS ex_env (PyStr ''s3.eu'') = None
   \<and> PyStr ''s3.eu'' \<noteq> UNSIGNED ex_env
   \<and> resolved_version
        (snd (get_auth ex_env ''s3'' (Some ''eu.us'') (PyStr ''s3'') Map.empty
               (ex_signer (Some ''us'') ''s3'' (PyStr ''s3.eu''))))
        ''ListBuckets'' = PyStr ''s3.eu''
   \<and> fst (sign ex_env ''ListBuckets'' ex_request
        (snd (get_auth ex_env ''s3'' (Some ''eu.us'') (PyStr ''s3'') Map.empty
               (ex_signer (Some ''us'') ''s3'' (PyStr ''s3.eu''))))) = Inr ()"
  by (simp add: sign_unfold resolved_version_def choose_signer_response_def
        emit_until_response_def ex_signer_def RequestSigner_def ex_emitter_def ex_env_def
        get_auth_def Let_def cache_key_def log_def ex_registry_def)

text \<open>
  C7: every call to \<open>sign\<close> first settles the version with the \<open>choose-signer\<close>
  emit, then runs every \<open>before-sign\<close> handler, in order, on the request with the
  version already settled on, and only then looks a strategy up. The request that
  \<open>sign\<close> leaves is the one the handlers produced, signed by \<open>add_auth\<close> when a
  strategy was found and as the handlers left it otherwise: when the version is the
  unsigned sentinel, where nothing else happens, and when the lookup raises. In the trace
  the two emits come first, every later event of the call is a cache lookup, a
  construction or an \<open>add_auth\<close>, there is none exactly when the version is the
  sentinel, and an \<open>add_auth\<close> receives the request as the handlers left it.
\<close>

theorem sign_event_order:
  "sign env op r st =
     (if resolved_version st op \<noteq> UNSIGNED env
      then (case get_auth env (self_signing_name st) (self_region_name st)
                   (resolved_version st op) Map.empty
                   (st\<lparr>trace := trace st @
                      [EmitUntilResponse (choose_signer_name st op)
                         (PyStr (self_signature_version st)),
                       Emit (before_sign_name st op) (resolved_version st op)]\<rparr>) of
              (Inl e, st3) \<Rightarrow> (Inl e, before_sign st op r, st3)
            | (Inr a, st3) \<Rightarrow>
                (Inr (), add_auth env a (before_sign st op r),
                 st3\<lparr>trace := trace st3 @ [AddAuth (auth_id a) (before_sign st op r)]\<rparr>))
      else (Inr (), before_sign st op r,
            st\<lparr>trace := trace st @
               [EmitUntilResponse (choose_signer_name st op)
                  (PyStr (self_signature_version st)),
                Emit (before_sign_name st op) (resolved_version st op)]\<rparr>))
   \<and> before_sign st op r
       = foldl (\<lambda>rq h. h rq (self_signing_name st) (self_region_name st)
                  (resolved_version st op))
           r (sign_handlers (self_event_emitter st) (before_sign_name st op))
   \<and> resolved_version st op
       = (if choose_signer_response st op \<noteq> PyNone then choose_signer_response st op
          else PyStr (self_signature_version st))
   \<and> take (length (trace st) + 2) (trace (snd (snd (sign env op r st))))
     = trace st @
         [EmitUntilResponse (choose_signer_name st op) (PyStr (self_signature_version st)),
          Emit (before_sign_name st op) (resolved_version st op)]
   \<and> list_all is_strategy_event
        (drop (length (trace st) + 2) (trace (snd (snd (sign env op r st)))))
   \<and> ((drop (length (trace st) + 2) (trace (snd (snd (sign env op r st)))) = [])
        = (resolved_version st op = UNSIGNED env))
   \<and> list_all (\<lambda>e. case e of AddAuth a r' \<Rightarrow> r' = before_sign st op r | _ \<Rightarrow> True)
        (drop (length (trace st) + 2) (trace (snd (snd (sign env op r st)))))"
proof -
  have full: "sign env op r st =
     (if resolved_version st op \<noteq> UNSIGNED env
      then (case get_auth env (self_signing_name st) (self_region_name st)
                   (resolved_version st op) Map.empty
                   (st\<lparr>trace := trace st @
                      [EmitUntilResponse (choose_signer_name st op)
                         (PyStr (self_signature_version st)),
                       Emit (before_sign_name st op) (resolved_version st op)]\<rparr>) of
              (Inl e, st3) \<Rightarrow> (Inl e, before_sign st op r, st3)
            | (Inr a, st3) \<Rightarrow>
                (Inr (), add_auth env a (before_sign st op r),
                 st3\<lparr>trace := trace st3 @ [AddAuth (auth_id a) (before_sign st op r)]\<rparr>))
      else (Inr (), before_sign st op r,
            st\<lparr>trace := trace st @
               [EmitUntilResponse (choose_signer_name st op)
                  (PyStr (self_signature_version st)),
                Emit (before_sign_name st op) (resolved_version st op)]\<rparr>))"
    by (simp add: sign_unfold log_def split: prod.splits sum.splits)
  have hooks: "before_sign st op r
       = foldl (\<lambda>rq h. h rq (self_signing_name st) (self_region_name st)
                  (resolved_version st op))
           r (sign_handlers (self_event_emitter st) (before_sign_name st op))"
    by (simp add: before_sign_def emit_def)
  have rv: "resolved_version st op
       = (if choose_signer_response st op \<noteq> PyNone then choose_signer_response st op
          else PyStr (self_signature_version st))"
    by (simp add: resolved_version_def)
  have events: "take (length (trace st) + 2) (trace (snd (snd (sign env op r st))))
     = trace st @
         [EmitUntilResponse (choose_signer_name st op) (PyStr (self_signature_version st)),
          Emit (before_sign_name st op) (resolved_version st op)]
   \<and> list_all is_strategy_event
        (drop (length (trace st) + 2) (trace (snd (snd (sign env op r st)))))
   \<and> ((drop (length (trace st) + 2) (trace (snd (snd (sign env op r st)))) = [])
        = (resolved_version st op = UNSIGNED env))
   \<and> list_all (\<lambda>e. case e of AddAuth a r' \<Rightarrow> r' = before_sign st op r | _ \<Rightarrow> True)
        (drop (length (trace st) + 2) (trace (snd (snd (sign env op r st)))))"
  proof (cases "resolved_version st op = UNSIGNED env")
    case True
    then show ?thesis by (simp add: sign_unsigned log_def)
  next
    case False
    let ?st2 = "log (Emit (before_sign_name st op) (resolved_version st op))
                 (log (EmitUntilResponse (choose_signer_name st op)
                        (PyStr (self_signature_version st))) st)"
    from get_auth_shape [of ?st2 env "self_signing_name st" "self_region_name st"
           "resolved_version st op" Map.empty]
    show ?thesis
      using False
      by (elim disjE exE conjE) (simp_all add: sign_signed log_def)
  qed
  from full hooks rv events show ?thesis
    by (intro conjI) blast+
qed

theorem sign_event_order_witness:
  "sign ex_env ''ListBuckets'' ex_request (ex_signer (Some ''us-east-1'') ''v4'' (PyObj 0)) =
     (Inr (),
      ex_request\<lparr>req_headers := [(''X-Before-Sign'', ''s3'')]\<rparr>,
      (ex_signer (Some ''us-east-1'') ''v4'' (PyObj 0))
        \<lparr>trace := [EmitUntilResponse ''choose-signer.s3.ListBuckets'' (PyStr ''v4''),
                    Emit ''before-sign.s3.ListBuckets'' (PyObj 0)]\<rparr>)"
proof -
  let ?st = "ex_signer (Some ''us-east-1'') ''v4'' (PyObj 0)"
  have rv: "resolved_version ?st ''ListBuckets'' = PyObj 0"
    by (simp add: resolved_version_def choose_signer_response_def emit_until_response_def
          ex_signer_def RequestSigner_def ex_emitter_def Let_def)
  have un: "UNSIGNED ex_env = PyObj 0"
    by (simp add: ex_env_def)
  have bs: "before_sign ?st ''ListBuckets'' ex_request
              = ex_request\<lparr>req_headers := [(''X-Before-Sign'', ''s3'')]\<rparr>"
    by (simp add: before_sign_def emit_def rv ex_signer_def RequestSigner_def ex_emitter_def
          ex_request_def)
  have nm: "choose_signer_name ?st ''ListBuckets'' = ''choose-signer.s3.ListBuckets''"
    "before_sign_name ?st ''ListBuckets'' = ''before-sign.s3.ListBuckets''"
    "self_signature_version ?st = ''v4''" "trace ?st = []"
    by (simp_all add: choose_signer_name_def before_sign_name_def ex_signer_def
          RequestSigner_def)
  from sign_event_order [of ex_env "''ListBuckets''" ex_request ?st]
  have "sign ex_env ''ListBuckets'' ex_request ?st =
     (if resolved_version ?st ''ListBuckets'' \<noteq> UNSIGNED ex_env
      then (case get_auth ex_env (self_signing_name ?st) (self_region_name ?st)
                   (resolved_version ?st ''ListBuckets'') Map.empty
                   (?st\<lparr>trace := trace ?st @
                      [EmitUntilResponse (choose_signer_name ?st ''ListBuckets'')
                         (PyStr (self_signature_version ?st)),
                       Emit (before_sign_name ?st ''ListBuckets'')
                         (resolved_version ?st ''ListBuckets'')]\<rparr>) of
              (Inl e, st3) \<Rightarrow> (Inl e, before_sign ?st ''ListBuckets'' ex_request, st3)
            | (Inr a, st3) \<Rightarrow>
                (Inr (), add_auth ex_env a (before_sign ?st ''ListBuckets'' ex_request),
                 st3\<lparr>trace := trace st3 @
                   [AddAuth (auth_id a) (before_sign ?st ''ListBuckets'' ex_request)]\<rparr>))
      else (Inr (), before_sign ?st ''ListBuckets'' ex_request,
            ?st\<lparr>trace := trace ?st @
               [EmitUntilResponse (choose_signer_name ?st ''ListBuckets'')
                  (PyStr (self_signature_version ?st)),
                Emit (before_sign_name ?st ''ListBuckets'')
                  (resolved_version ?st ''ListBuckets'')]\<rparr>))"
    by blast
  then show ?thesis
    by (simp add: rv un bs nm)
qed

subsection \<open>The presign operations\<close>

lemmas ex_defs =
  generate_url_def build_post_form_args_def timedelta_seconds_def datetime_plus_def
  datetime_max_def get_auth_def Let_def cache_key_def log_def with_suffix_def
  endswith_def ex_signer_def RequestSigner_def ex_env_def ex_registry_def
  ex_request_def signature_type_of_def region_or_default_def expires_kwargs_def

lemma append_conditions_eq: "append_conditions acc cs = acc @ cs"
  by (induction cs arbitrary: acc) simp_all

lemma signed_requests_append:
  "signed_requests (xs @ ys) = signed_requests xs @ signed_requests ys"
  by (induction xs rule: signed_requests.induct) simp_all

lemma get_auth_signed_requests:
  "signed_requests (trace (snd (get_auth env sn rn sv kw st))) = signed_requests (trace st)"
  using get_auth_shape [of st env sn rn sv kw]
  by (auto simp: log_def signed_requests_append)

lemma timedelta_seconds_Inr: "timedelta_seconds n = Inr d \<Longrightarrow> d = n * 1000000"
  by (simp add: timedelta_seconds_def split: if_splits)

lemma datetime_plus_Inr: "datetime_plus d delta = Inr x \<Longrightarrow> x = d + delta"
  by (simp add: datetime_plus_def split: if_splits)

lemma build_post_form_args_unfold:
  assumes "timedelta_seconds e = Inr delta"
    and "datetime_plus now delta = Inr expire_date"
    and "get_auth env (self_signing_name st) (region_or_default st rn)
           (PyStr (with_suffix (self_signature_version st) ''-presign-post'')) Map.empty st
         = (Inr auth, st1)"
  shows "build_post_form_args env now rd f c e rn st =
     (let request2 = (create_request_object env rd)\<lparr>req_context :=
             (req_context (create_request_object env rd))
               (''s3-presign-post-fields'' \<mapsto> CtxFields (case f of None \<Rightarrow> Map.empty | Some x \<Rightarrow> x),
                ''s3-presign-post-policy'' \<mapsto> CtxPolicy
                   \<lparr>expiration = strftime env expire_date (ISO8601 env),
                    conditions = (case c of None \<Rightarrow> [] | Some cs \<Rightarrow> cs)\<rparr>)\<rparr>;
          signature_type = signature_type_of (with_suffix (self_signature_version st) ''-presign-post'');
          request4 = fix_s3_host env (add_auth env auth request2) signature_type
                       (region_or_default st rn)
      in (Inr \<lparr>form_url = req_url request4,
               form_fields = (case req_context request4 ''s3-presign-post-fields'' of
                                Some (CtxFields x) \<Rightarrow> x
                              | _ \<Rightarrow> (case f of None \<Rightarrow> Map.empty | Some x \<Rightarrow> x))\<rparr>,
          st1\<lparr>trace := trace st1 @
                [CreateRequestObject, AddAuth (auth_id auth) request2,
                 FixS3Host signature_type (region_or_default st rn)]\<rparr>))"
  using assms
  by (simp add: build_post_form_args_def Let_def region_or_default_def log_def
        append_conditions_eq)

lemma build_post_form_args_success:
  assumes "fst (build_post_form_args env now rd f c e rn st) = Inr res"
  shows "timedelta_seconds e = Inr (e * 1000000)
         \<and> datetime_plus now (e * 1000000) = Inr (now + e * 1000000)
         \<and> (\<exists>auth. fst (get_auth env (self_signing_name st) (region_or_default st rn)
           (PyStr (with_suffix (self_signature_version st) ''-presign-post'')) Map.empty st)
            = Inr auth)"
  using assms
  by (auto simp: build_post_form_args_def Let_def region_or_default_def
        split: sum.splits prod.splits dest: timedelta_seconds_Inr datetime_plus_Inr)

text \<open>
  C8: when \<open>build_post_form_args\<close> returns, the request it handed to \<open>add_auth\<close>
  carries under \<open>s3-presign-post-policy\<close> a policy whose expiration is the time of the
  call plus \<open>expires_in\<close> seconds, formatted by \<open>strftime\<close> with the pattern
  \<open>ISO8601\<close>, and whose conditions are the caller's, in the caller's order (none when
  the caller gave \<open>None\<close>).
\<close>

theorem build_post_form_args_policy:
  assumes "fst (build_post_form_args env now rd f c e rn st) = Inr res"
  shows "req_context
           (last (signed_requests (trace (snd (build_post_form_args env now rd f c e rn st)))))
           ''s3-presign-post-policy''
         = Some (CtxPolicy
             \<lparr>expiration = strftime env (now + e * 1000000) (ISO8601 env),
              conditions = (case c of None \<Rightarrow> [] | Some cs \<Rightarrow> cs)\<rparr>)"
proof -
  from build_post_form_args_success [OF assms] obtain auth where
    td: "timedelta_seconds e = Inr (e * 1000000)"
    and dp: "datetime_plus now (e * 1000000) = Inr (now + e * 1000000)"
    and ga: "fst (get_auth env (self_signing_name st) (region_or_default st rn)
           (PyStr (with_suffix (self_signature_version st) ''-presign-post'')) Map.empty st)
            = Inr auth"
    by blast
  from ga have ga': "get_auth env (self_signing_name st) (region_or_default st rn)
           (PyStr (with_suffix (self_signature_version st) ''-presign-post'')) Map.empty st
         = (Inr auth, snd (get_auth env (self_signing_name st) (region_or_default st rn)
           (PyStr (with_suffix (self_signature_version st) ''-presign-post'')) Map.empty st))"
    by (metis prod.collapse)
  show ?thesis
    unfolding build_post_form_args_unfold [OF td dp ga'] Let_def
    by (simp add: signed_requests_append)
qed

theorem build_post_form_args_policy_witness:
  "fst (build_post_form_args ex_env 1000 [] None (Some [CondDict [(''acl'', ''public-read'')]])
          600 None (ex_signer None ''s3'' PyNone))
     = Inr \<lparr>form_url = ''https://s3.amazonaws.com/bucket'', form_fields = Map.empty\<rparr>
   \<and> req_context
         (last (signed_requests (trace (snd
            (build_post_form_args ex_env 1000 [] None (Some [CondDict [(''acl'', ''public-read'')]])
               600 None (ex_signer None ''s3'' PyNone))))))
         ''s3-presign-post-policy''
       = Some (CtxPolicy \<lparr>expiration = ''strftime'',
                           conditions = [CondDict [(''acl'', ''public-read'')]]\<rparr>)"
proof -
  have h: "fst (build_post_form_args ex_env 1000 [] None (Some [CondDict [(''acl'', ''public-read'')]])
          600 None (ex_signer None ''s3'' PyNone))
     = Inr \<lparr>form_url = ''https://s3.amazonaws.com/bucket'', form_fields = Map.empty\<rparr>"
    by (simp add: build_post_form_args_def timedelta_seconds_def datetime_plus_def
          datetime_max_def get_auth_def Let_def cache_key_def log_def with_suffix_def
          endswith_def ex_signer_def RequestSigner_def ex_env_def ex_registry_def
          ex_request_def signature_type_of_def)
  show ?thesis
    using h build_post_form_args_policy [OF h]
    by (simp add: ex_env_def)
qed


lemma generate_url_unfold:
  assumes "get_auth env (self_signing_name st) (region_or_default st rn)
           (PyStr (with_suffix (self_signature_version st) ''-query'')) (expires_kwargs e) st
         = (Inr auth, st1)"
  shows "generate_url env rd e rn st =
     (let signature_type = signature_type_of (with_suffix (self_signature_version st) ''-query'');
          request2 = fix_s3_host env (create_request_object env rd) signature_type
                       (region_or_default st rn)
      in (Inr (req_url (add_auth env auth request2)),
          st1\<lparr>trace := trace st1 @
                [CreateRequestObject, FixS3Host signature_type (region_or_default st rn),
                 AddAuth (auth_id auth) request2, Prepare]\<rparr>))"
  using assms
  by (simp add: generate_url_def Let_def region_or_default_def expires_kwargs_def log_def)

lemma generate_url_success:
  assumes "fst (generate_url env rd e rn st) = Inr u"
  shows "\<exists>auth. fst (get_auth env (self_signing_name st) (region_or_default st rn)
           (PyStr (with_suffix (self_signature_version st) ''-query'')) (expires_kwargs e) st)
            = Inr auth"
  using assms
  by (auto simp: generate_url_def Let_def region_or_default_def expires_kwargs_def
        split: sum.splits prod.splits)









text \<open>
  C10: a first \<open>generate_url\<close> with \<open>expires_in = e1\<close> misses the cache and
  succeeds. Any later \<open>generate_url\<close> on the signer that resolves to the same region,
  whatever its own \<open>expires_in\<close>, constructs nothing: it signs with the instance of
  the first call, whose \<open>expires\<close> argument is \<open>e1\<close>.
\<close>

theorem generate_url_expires_not_in_key:
  assumes "fst (generate_url env rd1 (Some e1) rn1 st) = Inr u1"
    and "self_cache st
           (cache_key env (PyStr (with_suffix (self_signature_version st) ''-query''))
              (region_or_default st rn1) (self_signing_name st)) = None"
    and "region_or_default st rn2 = region_or_default st rn1"
    and "st1 = run env calls (snd (generate_url env rd1 (Some e1) rn1 st))"
  shows "\<exists>auth. auth_id auth = allocated st
           \<and> auth_kwargs auth ''expires'' = Some (KwInt e1)
           \<and> generate_url env rd2 e2 rn2 st1 =
               (Inr (req_url (add_auth env auth
                      (fix_s3_host env (create_request_object env rd2)
                         (signature_type_of (with_suffix (self_signature_version st) ''-query''))
                         (region_or_default st rn1)))),
                st1\<lparr>trace := trace st1 @
                  [CacheLookup
                     (cache_key env (PyStr (with_suffix (self_signature_version st) ''-query''))
                        (region_or_default st rn1) (self_signing_name st)),
                   CreateRequestObject,
                   FixS3Host (signature_type_of (with_suffix (self_signature_version st) ''-query''))
                     (region_or_default st rn1),
                   AddAuth (auth_id auth)
                     (fix_s3_host env (create_request_object env rd2)
                         (signature_type_of (with_suffix (self_signature_version st) ''-query''))
                         (region_or_default st rn1)),
                   Prepare]\<rparr>)"
proof -
  let ?v = "PyStr (with_suffix (self_signature_version st) ''-query'')"
  let ?K = "cache_key env ?v (region_or_default st rn1) (self_signing_name st)"
  let ?g = "get_auth env (self_signing_name st) (region_or_default st rn1) ?v
              (expires_kwargs (Some e1)) st"
  have key: "effective_key env s (self_signing_name st) (region_or_default st rn1) ?v = ?K" for s
    by (simp add: effective_key_def)
  from generate_url_success [OF assms(1)] obtain auth where a: "fst ?g = Inr auth"
    by blast
  then have g: "?g = (Inr auth, snd ?g)"
    by (metis prod.collapse)
  have miss: "self_cache st (effective_key env st (self_signing_name st)
                (region_or_default st rn1) ?v) = None"
    using assms(2) by (simp add: key)
  have id: "auth_id auth = allocated st"
    using get_auth_fresh [OF a miss] .
  have kw: "auth_kwargs auth ''expires'' = Some (KwInt e1)"
    using a unfolding get_auth_miss [OF miss]
    by (auto simp: Let_def expires_kwargs_def split: option.splits if_splits)
  have "self_cache (snd ?g) ?K = Some auth"
    using get_auth_cached [OF a] by (simp add: key)
  then have c0: "self_cache (snd (generate_url env rd1 (Some e1) rn1 st)) ?K = Some auth"
    by (simp add: generate_url_unfold [OF g] Let_def)
  have ext: "extends st st1"
    using extends_trans [OF generate_url_extends run_extends] assms(4) by simp
  have c1: "self_cache st1 ?K = Some auth"
    using extends_cache [OF run_extends c0] assms(4) by simp
  have attrs: "self_signing_name st1 = self_signing_name st"
    "self_signature_version st1 = self_signature_version st"
    "self_region_name st1 = self_region_name st"
    using ext by (simp_all add: extends_def)
  have "region_or_default st1 rn2 = region_or_default st rn2"
    by (simp add: region_or_default_def attrs)
  then have same: "self_signing_name st1 = self_signing_name st"
    "self_signature_version st1 = self_signature_version st"
    "region_or_default st1 rn2 = region_or_default st rn1"
    using attrs assms(3) by simp_all
  have "self_cache st1 (effective_key env st1 (self_signing_name st)
                (region_or_default st rn1) ?v) = Some auth"
    using c1 by (simp add: key)
  from get_auth_hit [OF this, of "expires_kwargs e2"]
  have "get_auth env (self_signing_name st1) (region_or_default st1 rn2)
           (PyStr (with_suffix (self_signature_version st1) ''-query'')) (expires_kwargs e2) st1
         = (Inr auth, log (CacheLookup ?K) st1)"
    by (simp add: same key)
  from generate_url_unfold [OF this, of rd2]
  have "generate_url env rd2 e2 rn2 st1 =
               (Inr (req_url (add_auth env auth
                      (fix_s3_host env (create_request_object env rd2)
                         (signature_type_of (with_suffix (self_signature_version st) ''-query''))
                         (region_or_default st rn1)))),
                st1\<lparr>trace := trace st1 @
                  [CacheLookup ?K, CreateRequestObject,
                   FixS3Host (signature_type_of (with_suffix (self_signature_version st) ''-query''))
                     (region_or_default st rn1),
                   AddAuth (auth_id auth)
                     (fix_s3_host env (create_request_object env rd2)
                         (signature_type_of (with_suffix (self_signature_version st) ''-query''))
                         (region_or_default st rn1)),
                   Prepare]\<rparr>)"
    by (simp add: same Let_def log_def)
  with id kw show ?thesis by blast
qed

theorem generate_url_expires_not_in_key_witness:
  "fst (generate_url ex_env [] (Some 3600) None
          (snd (generate_url ex_env [] (Some 60) None (ex_signer None ''s3'' PyNone))))
     = Inr ''https://s3.amazonaws.com/bucket''
   \<and> allocated (snd (generate_url ex_env [] (Some 3600) None
          (snd (generate_url ex_env [] (Some 60) None (ex_signer None ''s3'' PyNone))))) = 1
   \<and> map_option (\<lambda>a. auth_kwargs a ''expires'')
        (self_cache (snd (generate_url ex_env [] (Some 3600) None
          (snd (generate_url ex_env [] (Some 60) None (ex_signer None ''s3'' PyNone)))))
          ''s3-query.None.s3'') = Some (Some (KwInt 60))"
proof -
  let ?st = "ex_signer None ''s3'' PyNone"
  let ?st1 = "snd (generate_url ex_env [] (Some 60) None ?st)"
  have h1: "fst (generate_url ex_env [] (Some 60) None ?st)
              = Inr ''https://s3.amazonaws.com/bucket''"
    by (simp add: ex_defs)
  have h2: "self_cache ?st
           (cache_key ex_env (PyStr (with_suffix (self_signature_version ?st) ''-query''))
              (region_or_default ?st None) (self_signing_name ?st)) = None"
    by (simp add: ex_signer_def RequestSigner_def)
  have h3: "region_or_default ?st None = region_or_default ?st None"
    by simp
  have h4: "?st1 = run ex_env [] ?st1"
    by (simp add: run_def)
  have a1: "allocated ?st1 = 1"
    by (simp add: ex_defs)
  have c1: "map_option (\<lambda>a. auth_kwargs a ''expires'') (self_cache ?st1 ''s3-query.None.s3'')
              = Some (Some (KwInt 60))"
    by (simp add: ex_defs)
  from generate_url_expires_not_in_key [OF h1 h2 h3 h4, of "[]" "Some 3600"]
  obtain auth where
    eq: "generate_url ex_env [] (Some 3600) None ?st1 =
               (Inr (req_url (add_auth ex_env auth
                      (fix_s3_host ex_env (create_request_object ex_env [])
                         (signature_type_of (with_suffix (self_signature_version ?st) ''-query''))
                         (region_or_default ?st None)))),
                ?st1\<lparr>trace := trace ?st1 @
                  [CacheLookup
                     (cache_key ex_env (PyStr (with_suffix (self_signature_version ?st) ''-query''))
                        (region_or_default ?st None) (self_signing_name ?st)),
                   CreateRequestObject,
                   FixS3Host (signature_type_of (with_suffix (self_signature_version ?st) ''-query''))
                     (region_or_default ?st None),
                   AddAuth (auth_id auth)
                     (fix_s3_host ex_env (create_request_object ex_env [])
                         (signature_type_of (with_suffix (self_signature_version ?st) ''-query''))
                         (region_or_default ?st None)),
                   Prepare]\<rparr>)"
    by blast
  have "fst (generate_url ex_env [] (Some 3600) None ?st1)
          = Inr ''https://s3.amazonaws.com/bucket''"
    unfolding eq by (simp add: ex_env_def ex_request_def)
  moreover have "allocated (snd (generate_url ex_env [] (Some 3600) None ?st1)) = 1"
    unfolding eq using a1 by simp
  moreover have "map_option (\<lambda>a. auth_kwargs a ''expires'')
        (self_cache (snd (generate_url ex_env [] (Some 3600) None ?st1)) ''s3-query.None.s3'')
          = Some (Some (KwInt 60))"
    unfolding eq using c1 by simp
  ultimately show ?thesis by simp
qed

subsection \<open>Variant suffixes\<close>

lemma endswith_append: "endswith (s @ suf) suf"
  by (simp add: endswith_def)

text \<open>
  C5: deriving the presign variant of a signature version is idempotent, for the suffix
  \<open>-query\<close> of \<open>generate_url\<close> and the suffix \<open>-presign-post\<close> of
  \<open>build_post_form_args\<close>: deriving twice equals deriving once, and an identifier that
  already ends with the suffix is left as it is.
\<close>

theorem with_suffix_idempotent:
  "with_suffix (with_suffix v ''-query'') ''-query'' = with_suffix v ''-query''
   \<and> with_suffix (with_suffix v ''-presign-post'') ''-presign-post''
       = with_suffix v ''-presign-post''
   \<and> with_suffix (u @ ''-query'') ''-query'' = u @ ''-query''
   \<and> with_suffix (u @ ''-presign-post'') ''-presign-post'' = u @ ''-presign-post''"
  by (simp add: with_suffix_def endswith_append)

end
